theory Spec2Isabelle
  imports Main
begin

section \<open>Values\<close>

text \<open>
  The service moves JSON documents around without interpreting them, except for a handful
  of JavaScript operations: truthiness (\<open>!x\<close>, \<open>a && b\<close>), strict equality (\<open>===\<close>),
  property access, the \<open>in\<close> operator, object spread and rest destructuring, and the
  conversion of a value to a property key.

  A number is kept as its canonical rendering (what \<open>String(n)\<close> gives), which is all that
  truthiness, \<open>===\<close> and key conversion look at. \<open>JOid\<close> is the identifier the database
  puts under \<open>_id\<close>, kept as its hex rendering. An object parsed from JSON is a map from
  its own member names to values, with \<open>Object.prototype\<close> as its prototype; the absence of
  a member is \<open>undefined\<close>, so reading a member of such an object has type \<open>json option\<close>.
\<close>

datatype json =
    JNull
  | JBool bool
  | JNum string
  | JStr string
  | JOid string
  | JArr "json list"
  | JObj "string \<Rightarrow> json option"

text \<open>\<open>interface ProjectData { code?: string; ip?: string; [key: string]: any }\<close>\<close>

type_synonym ProjectData = "string \<Rightarrow> json option"

fun truthy :: "json \<Rightarrow> bool" where
  "truthy JNull = False"
| "truthy (JBool b) = b"
| "truthy (JNum s) = (s \<noteq> ''0'' \<and> s \<noteq> ''NaN'')"
| "truthy (JStr s) = (s \<noteq> [])"
| "truthy (JOid s) = True"
| "truthy (JArr xs) = True"
| "truthy (JObj m) = True"

fun truthy_opt :: "json option \<Rightarrow> bool" where
  "truthy_opt None = False"
| "truthy_opt (Some v) = truthy v"

text \<open>
  \<open>a === b\<close>. Two arrays or two objects that reach a comparison here always come from
  different parses (a stored record, a geolocation response), so they are never the same
  reference and compare unequal.
\<close>

fun strict_eq :: "json \<Rightarrow> json \<Rightarrow> bool" where
  "strict_eq JNull JNull = True"
| "strict_eq (JBool a) (JBool b) = (a = b)"
| "strict_eq (JNum a) (JNum b) = (a = b \<and> a \<noteq> ''NaN'')"
| "strict_eq (JStr a) (JStr b) = (a = b)"
| "strict_eq _ _ = False"

fun strict_eq_opt :: "json option \<Rightarrow> json option \<Rightarrow> bool" where
  "strict_eq_opt None None = True"
| "strict_eq_opt (Some a) (Some b) = strict_eq a b"
| "strict_eq_opt _ _ = False"

text \<open>\<open>x === "lit"\<close> for a string literal.\<close>

definition is_string :: "json option \<Rightarrow> string \<Rightarrow> bool" where
  "is_string x lit = strict_eq_opt x (Some (JStr lit))"

datatype exn = TypeError | AxiosError | MongoError | Error

text \<open>
  \<open>response.data.countryCode\<close>: a member of an object; \<open>undefined\<close> on a string, number,
  boolean or array, none of which has a member of that name. Reading a member of \<open>null\<close>
  throws.
\<close>

fun member :: "json \<Rightarrow> string \<Rightarrow> exn + json option" where
  "member JNull name = Inl TypeError"
| "member (JObj m) name = Inr (m name)"
| "member _ name = Inr None"

text \<open>
  Conversion of a value to a property key, as in \<open>projects[packageName]\<close>:
  \<open>String(v)\<close>, where an array is its elements joined by commas with \<open>null\<close> rendered
  empty.
\<close>

fun is_null :: "json \<Rightarrow> bool" where
  "is_null JNull = True"
| "is_null _ = False"

fun to_key :: "json \<Rightarrow> string" and arr_join :: "json list \<Rightarrow> string" where
  "to_key JNull = ''null''"
| "to_key (JBool b) = (if b then ''true'' else ''false'')"
| "to_key (JNum s) = s"
| "to_key (JStr s) = s"
| "to_key (JOid s) = s"
| "to_key (JArr xs) = arr_join xs"
| "to_key (JObj m) = ''[object Object]''"
| "arr_join [] = []"
| "arr_join [x] = (if is_null x then [] else to_key x)"
| "arr_join (x # y # ys) = (if is_null x then [] else to_key x) @ '','' @ arr_join (y # ys)"

section \<open>The cache object\<close>

text \<open>
  \<open>interface Projects { [key: string]: ProjectData }\<close>, with \<open>let projects: Projects = {}\<close>
  (src/app.ts reads it from the file it writes with \<open>JSON.stringify(projects)\<close>). The cache
  is a plain object used as a dictionary, so its prototype chain takes part in every read
  and write by key. \<open>own\<close> are its own members. \<open>proto\<close> is its prototype once that is no
  longer \<open>Object.prototype\<close>: an assignment to the key \<open>__proto__\<close> runs the setter
  inherited from \<open>Object.prototype\<close>, which makes the assigned object the prototype and adds
  no member.
\<close>

record Projects =
  own :: "string \<Rightarrow> ProjectData option"
  proto :: "ProjectData option"

text \<open>\<open>{}\<close>\<close>

definition empty_projects :: Projects where
  "empty_projects = \<lparr>own = Map.empty, proto = None\<rparr>"

text \<open>The functions of \<open>Object.prototype\<close>; its twelfth member is the accessor \<open>__proto__\<close>.\<close>

definition object_prototype_functions :: "string list" where
  "object_prototype_functions =
     [''constructor'', ''hasOwnProperty'', ''isPrototypeOf'', ''propertyIsEnumerable'',
      ''toLocaleString'', ''toString'', ''valueOf'', ''__defineGetter__'',
      ''__defineSetter__'', ''__lookupGetter__'', ''__lookupSetter__'']"

text \<open>
  What \<open>projects[key]\<close> can be: \<open>undefined\<close>, a JSON value, or a built-in of the runtime
  (a function of \<open>Object.prototype\<close>, or \<open>Object.prototype\<close> itself), named by the key that
  reached it.
\<close>

datatype jsval = Undefined | Val json | Builtin string

text \<open>
  \<open>projects[key]\<close>: an own member; else, for \<open>__proto__\<close>, what the inherited getter
  returns, which is the prototype of the cache; else a member of the prototype the cache was
  given; else a function of \<open>Object.prototype\<close>; else \<open>undefined\<close>. An object parsed from a
  request body has no member named \<open>__proto__\<close> (the framework refuses such a body before
  the handler runs), so the prototype the cache was given is not asked for one.
\<close>

definition lookup :: "Projects \<Rightarrow> string \<Rightarrow> jsval" where
  "lookup projects key =
     (case own projects key of
        Some projectData \<Rightarrow> Val (JObj projectData)
      | None \<Rightarrow>
          if key = ''__proto__'' then
            (case proto projects of
               Some p \<Rightarrow> Val (JObj p)
             | None \<Rightarrow> Builtin key)
          else
            (case (case proto projects of Some p \<Rightarrow> p key | None \<Rightarrow> None) of
               Some v \<Rightarrow> Val v
             | None \<Rightarrow>
                 if key \<in> set object_prototype_functions then Builtin key else Undefined))"

text \<open>
  \<open>projects[key] = data\<close>: an own member is overwritten; otherwise the key \<open>__proto__\<close>
  reaches the inherited setter, and any other key becomes a new own member.
\<close>

definition assign :: "Projects \<Rightarrow> string \<Rightarrow> ProjectData \<Rightarrow> Projects" where
  "assign projects key data =
     (if key = ''__proto__'' \<and> own projects key = None
      then projects\<lparr>proto := Some data\<rparr>
      else projects\<lparr>own := (own projects)(key \<mapsto> data)\<rparr>)"

text \<open>\<open>!projectData\<close>\<close>

fun falsy :: "jsval \<Rightarrow> bool" where
  "falsy Undefined = True"
| "falsy (Val v) = (\<not> truthy v)"
| "falsy (Builtin name) = False"

text \<open>
  \<open>"ip" in projectData\<close>. The operator throws on a primitive; an object answers for its
  own members, and neither \<open>Object.prototype\<close>, an array nor a function has a member of
  the name the service asks for.
\<close>

fun in_op :: "string \<Rightarrow> jsval \<Rightarrow> exn + bool" where
  "in_op name (Val (JObj m)) = Inr (m name \<noteq> None)"
| "in_op name (Val (JArr xs)) = Inr False"
| "in_op name (Val (JOid s)) = Inr False"
| "in_op name (Val v) = Inl TypeError"
| "in_op name (Builtin b) = Inr False"
| "in_op name Undefined = Inl TypeError"

text \<open>
  \<open>projectData.code\<close>, \<open>projectData.ip\<close> for a truthy value: a member of an object, and
  \<open>undefined\<close> on anything else.
\<close>

fun field :: "jsval \<Rightarrow> string \<Rightarrow> json option" where
  "field (Val (JObj m)) name = m name"
| "field _ name = None"

section \<open>Replies\<close>

text \<open>
  A handler returns a value, which the framework sends with status 200 (a string as text,
  anything else as JSON), or sets a status and sends an object or a string itself. A
  handler that throws makes the framework answer 500. A handler whose promise never settles,
  or settles with \<open>undefined\<close> and nothing sent, leaves the request without a reply.
\<close>

datatype payload = Json json | Text string | Native string

datatype reply = Reply nat payload | Throws exn | NoReply

definition empty_object :: json where
  "empty_object = JObj Map.empty"

text \<open>\<open>return projectData\<close>\<close>

fun returned :: "jsval \<Rightarrow> reply" where
  "returned Undefined = NoReply"
| "returned (Val (JStr s)) = Reply 200 (Text s)"
| "returned (Val v) = Reply 200 (Json v)"
| "returned (Builtin name) = Reply 200 (Native name)"

section \<open>Geolocation\<close>

text \<open>
  The provider is a parameter of the model: asked for an address it fails (network error,
  non-2xx status), answers with \<open>response.data\<close>, or never answers (\<open>None\<close>). Every function
  that may call it returns, next to its result, the addresses it looked up.
\<close>

type_synonym geo = "string \<Rightarrow> (exn + json) option"

text \<open>A provider that always fails or answers.\<close>

definition settled :: "(string \<Rightarrow> exn + json) \<Rightarrow> geo" where
  "settled f = (\<lambda>a. Some (f a))"

text \<open>
  \<open>await axios.get(url)\<close> as src/app.ts calls it, with no options: the promise settles when
  the provider does, and not before.
\<close>

definition axios_get :: "geo \<Rightarrow> string \<Rightarrow> (exn + json) option" where
  "axios_get g a = g a"

text \<open>
  \<open>await axios.get(url, { timeout: 5000 })\<close> as the later variants call it: a provider that
  does not answer makes the call throw.
\<close>

definition axios_get_timeout :: "geo \<Rightarrow> string \<Rightarrow> exn + json" where
  "axios_get_timeout g a = (case g a of None \<Rightarrow> Inl AxiosError | Some r \<Rightarrow> r)"

text \<open>
  \<open>xForwardedFor ? xForwardedFor.split(",")[0].trim() : null\<close>. The header arrives as
  Latin-1 text; the white space \<open>trim\<close> removes there is TAB, LF, VT, FF, CR, SP and NBSP.
\<close>

definition is_space :: "char \<Rightarrow> bool" where
  "is_space c = (c \<in> set [CHR 0x09, CHR 0x0A, CHR 0x0B, CHR 0x0C, CHR 0x0D, CHR 0x20, CHR 0xA0])"

definition trim :: "string \<Rightarrow> string" where
  "trim s = rev (dropWhile is_space (rev (dropWhile is_space s)))"

definition requestIp :: "string option \<Rightarrow> string option" where
  "requestIp xForwardedFor =
     (case xForwardedFor of
        None \<Rightarrow> None
      | Some h \<Rightarrow> if h = [] then None else Some (trim (takeWhile (\<lambda>c. c \<noteq> CHR '','') h)))"

text \<open>
  Both checks start with \<open>if (!ip) return false\<close> (the second with
  \<open>if (!ip || !countryCode) return false\<close>) for \<open>ip: string | null\<close>: no address, or the
  empty one, ends the check before any lookup.
\<close>

text \<open>The \<open>catch\<close> clause of both checks: log and \<open>return false\<close>.\<close>

fun catch_false :: "exn + bool \<Rightarrow> bool" where
  "catch_false (Inl e) = False"
| "catch_false (Inr b) = b"

subsection \<open>src/app.ts\<close>

text \<open>
  The \<open>try\<close> block of \<open>isIPFromBrazil\<close>: \<open>response.data.countryCode === "BR"\<close>, once the
  call has settled. The comment above the block announces a timeout of ten seconds; the call
  sets none.
\<close>

definition isIPFromBrazil_app_try :: "geo \<Rightarrow> string \<Rightarrow> (exn + bool) option" where
  "isIPFromBrazil_app_try g a =
     (case axios_get g a of
        None \<Rightarrow> None
      | Some (Inl e) \<Rightarrow> Some (Inl e)
      | Some (Inr data) \<Rightarrow>
          (case member data ''countryCode'' of
             Inl e \<Rightarrow> Some (Inl e)
           | Inr cc \<Rightarrow> Some (Inr (is_string cc ''BR''))))"

text \<open>The result is \<open>None\<close> when the function never returns.\<close>

definition isIPFromBrazil_app :: "geo \<Rightarrow> string option \<Rightarrow> bool option \<times> string list" where
  "isIPFromBrazil_app g ip =
     (case ip of
        None \<Rightarrow> (Some False, [])
      | Some a \<Rightarrow>
          if a = [] then (Some False, [])
          else (map_option catch_false (isIPFromBrazil_app_try g a), [a]))"

text \<open>The \<open>try\<close> block of \<open>isAccessibleRegion\<close>: \<open>response.data.countryCode === countryCode\<close>.\<close>

definition isAccessibleRegion_app_try :: "geo \<Rightarrow> string \<Rightarrow> json option \<Rightarrow> (exn + bool) option" where
  "isAccessibleRegion_app_try g a countryCode =
     (case axios_get g a of
        None \<Rightarrow> None
      | Some (Inl e) \<Rightarrow> Some (Inl e)
      | Some (Inr data) \<Rightarrow>
          (case member data ''countryCode'' of
             Inl e \<Rightarrow> Some (Inl e)
           | Inr cc \<Rightarrow> Some (Inr (strict_eq_opt cc countryCode))))"

definition isAccessibleRegion_app :: "geo \<Rightarrow> string option \<Rightarrow> json option \<Rightarrow> bool option \<times> string list" where
  "isAccessibleRegion_app g ip countryCode =
     (case ip of
        None \<Rightarrow> (Some False, [])
      | Some a \<Rightarrow>
          if a = [] \<or> \<not> truthy_opt countryCode then (Some False, [])
          else (map_option catch_false (isAccessibleRegion_app_try g a countryCode), [a]))"

subsection \<open>src/routes/root.ts and the later variants\<close>

text \<open>
  The \<open>try\<close> block with the guard
  \<open>if (response.data && response.data.countryCode) { return ... === "BR" } return false\<close>.
\<close>

definition isIPFromBrazil_try :: "geo \<Rightarrow> string \<Rightarrow> exn + bool" where
  "isIPFromBrazil_try g a =
     (case axios_get_timeout g a of
        Inl e \<Rightarrow> Inl e
      | Inr data \<Rightarrow>
          if \<not> truthy data then Inr False
          else (case member data ''countryCode'' of
                  Inl e \<Rightarrow> Inl e
                | Inr cc \<Rightarrow> if truthy_opt cc then Inr (is_string cc ''BR'') else Inr False))"

definition isIPFromBrazil :: "geo \<Rightarrow> string option \<Rightarrow> bool \<times> string list" where
  "isIPFromBrazil g ip =
     (case ip of
        None \<Rightarrow> (False, [])
      | Some a \<Rightarrow>
          if a = [] then (False, [])
          else (catch_false (isIPFromBrazil_try g a), [a]))"

definition isAccessibleRegion_try :: "geo \<Rightarrow> string \<Rightarrow> json option \<Rightarrow> exn + bool" where
  "isAccessibleRegion_try g a countryCode =
     (case axios_get_timeout g a of
        Inl e \<Rightarrow> Inl e
      | Inr data \<Rightarrow>
          if \<not> truthy data then Inr False
          else (case member data ''countryCode'' of
                  Inl e \<Rightarrow> Inl e
                | Inr cc \<Rightarrow> if truthy_opt cc then Inr (strict_eq_opt cc countryCode) else Inr False))"

definition isAccessibleRegion :: "geo \<Rightarrow> string option \<Rightarrow> json option \<Rightarrow> bool \<times> string list" where
  "isAccessibleRegion g ip countryCode =
     (case ip of
        None \<Rightarrow> (False, [])
      | Some a \<Rightarrow>
          if a = [] \<or> \<not> truthy_opt countryCode then (False, [])
          else (catch_false (isAccessibleRegion_try g a countryCode), [a]))"

section \<open>Read handlers\<close>

text \<open>
  \<open>GET /p/all\<close>: \<open>return projects\<close>. What is serialised is the cache's own members; a
  prototype given to the cache is not part of it.
\<close>

definition get_p_all :: "Projects \<Rightarrow> reply" where
  "get_p_all projects = Reply 200 (Json (JObj (\<lambda>key. map_option JObj (own projects key))))"

text \<open>\<open>GET /pp/:key\<close>: \<open>if (projectData) { return projectData } else { ... 404 ... }\<close>\<close>

definition get_pp :: "Projects \<Rightarrow> string \<Rightarrow> reply" where
  "get_pp projects key =
     (let projectData = lookup projects key in
      if \<not> falsy projectData then returned projectData
      else Reply 404 (Json (JObj [''error'' \<mapsto> JStr ''Project not found''])))"

text \<open>
  \<open>GET /br/:key\<close>, the handler of src/app.ts. The later variants have the same text and
  call their own two checks.
\<close>

definition get_br_app :: "geo \<Rightarrow> Projects \<Rightarrow> string option \<Rightarrow> string \<Rightarrow> reply \<times> string list" where
  "get_br_app g projects xForwardedFor key =
     (let projectData = lookup projects key in
      if falsy projectData then (Reply 200 (Json empty_object), [])
      else
        (case in_op ''ip'' projectData of
           Inl e \<Rightarrow> (Throws e, [])
         | Inr has_ip \<Rightarrow>
             if has_ip then
               if is_string (field projectData ''ip'') [] then
                 if is_string (field projectData ''code'') ''2''
                 then (returned projectData, [])
                 else (Reply 200 (Json empty_object), [])
               else
                 (case isAccessibleRegion_app g (requestIp xForwardedFor)
                         (field projectData ''ip'') of
                    (None, calls) \<Rightarrow> (NoReply, calls)
                  | (Some accessible, calls) \<Rightarrow>
                      if accessible then
                        if is_string (field projectData ''code'') ''2''
                        then (returned projectData, calls)
                        else (Reply 200 (Json empty_object), calls)
                      else (Reply 200 (Json empty_object), calls))
             else
               (case isIPFromBrazil_app g (requestIp xForwardedFor) of
                  (None, calls) \<Rightarrow> (NoReply, calls)
                | (Some fromBrazil, calls) \<Rightarrow>
                    if fromBrazil then
                      if is_string (field projectData ''code'') ''2''
                      then (returned projectData, calls)
                      else (Reply 200 (Json empty_object), calls)
                    else if is_string (field projectData ''code'') ''1''
                    then (Reply 200 (Json empty_object), calls)
                    else (Reply 200 (Json empty_object), calls))))"

definition get_br :: "geo \<Rightarrow> Projects \<Rightarrow> string option \<Rightarrow> string \<Rightarrow> reply \<times> string list" where
  "get_br g projects xForwardedFor key =
     (let projectData = lookup projects key in
      if falsy projectData then (Reply 200 (Json empty_object), [])
      else
        (case in_op ''ip'' projectData of
           Inl e \<Rightarrow> (Throws e, [])
         | Inr has_ip \<Rightarrow>
             if has_ip then
               if is_string (field projectData ''ip'') [] then
                 if is_string (field projectData ''code'') ''2''
                 then (returned projectData, [])
                 else (Reply 200 (Json empty_object), [])
               else
                 (case isAccessibleRegion g (requestIp xForwardedFor)
                         (field projectData ''ip'') of
                    (accessible, calls) \<Rightarrow>
                      if accessible then
                        if is_string (field projectData ''code'') ''2''
                        then (returned projectData, calls)
                        else (Reply 200 (Json empty_object), calls)
                      else (Reply 200 (Json empty_object), calls))
             else
               (case isIPFromBrazil g (requestIp xForwardedFor) of
                  (fromBrazil, calls) \<Rightarrow>
                    if fromBrazil then
                      if is_string (field projectData ''code'') ''2''
                      then (returned projectData, calls)
                      else (Reply 200 (Json empty_object), calls)
                    else if is_string (field projectData ''code'') ''1''
                    then (Reply 200 (Json empty_object), calls)
                    else (Reply 200 (Json empty_object), calls))))"

text \<open>
  \<open>POST /p/update/:key\<close> of src/app.ts, lines 166-177: the cache is assigned, then written
  to its file (which may throw), then 200 with \<open>"{}"\<close> is sent.
\<close>

definition post_p_update_app :: "bool \<Rightarrow> Projects \<Rightarrow> string \<Rightarrow> ProjectData \<Rightarrow> reply \<times> Projects" where
  "post_p_update_app file_written projects key data =
     (let projects' = assign projects key data in
      if file_written then (Reply 200 (Text ''{}''), projects')
      else (Throws Error, projects'))"

section \<open>The store\<close>

text \<open>
  The later variants keep the records in a MongoDB collection and cache them in
  \<open>projects\<close>. \<open>projectsCollection\<close> is \<open>null\<close> until a connection has been made; the
  model keeps the collection's documents with the handle.
\<close>

type_synonym document = "string \<Rightarrow> json option"

record server =
  projects :: Projects
  projectsCollection :: "document list option"

text \<open>
  \<open>collection.updateOne({ packageName }, { $set: fields }, { upsert: true })\<close> as the
  driver documents it: the first document whose \<open>packageName\<close> is the given string gets the
  fields set; when there is none, a document made of the filter's field and the fields,
  with a fresh \<open>_id\<close>, is added.
\<close>

fun set_first :: "string \<Rightarrow> document \<Rightarrow> document list \<Rightarrow> document list option" where
  "set_first packageName upd [] = None"
| "set_first packageName upd (d # ds) =
     (if is_string (d ''packageName'') packageName then Some ((d ++ upd) # ds)
      else map_option ((#) d) (set_first packageName upd ds))"

definition updateOne_upsert :: "document list \<Rightarrow> string \<Rightarrow> document \<Rightarrow> json \<Rightarrow> document list" where
  "updateOne_upsert coll packageName upd new_id =
     (case set_first packageName upd coll of
        Some coll' \<Rightarrow> coll'
      | None \<Rightarrow> coll @ [[''_id'' \<mapsto> new_id, ''packageName'' \<mapsto> JStr packageName] ++ upd])"

text \<open>
  What the database does with one write: the call throws, or it goes through (with the
  \<open>_id\<close> the server would give a new document).
\<close>

datatype db_write = WriteThrows | WriteOk json

text \<open>The document \<open>{ packageName, ...data }\<close> that \<open>saveProject\<close> passes under \<open>$set\<close>.\<close>

definition set_fields :: "string \<Rightarrow> ProjectData \<Rightarrow> document" where
  "set_fields packageName data = [''packageName'' \<mapsto> JStr packageName] ++ data"

text \<open>\<open>saveProject\<close> of src/routes/root.ts, lines 151-170 (the same in src/unnamed/part_001).\<close>

definition saveProject :: "db_write \<Rightarrow> server \<Rightarrow> string \<Rightarrow> ProjectData \<Rightarrow> bool \<times> server" where
  "saveProject w st packageName data =
     (case projectsCollection st of
        None \<Rightarrow> (False, st)
      | Some coll \<Rightarrow>
          (case w of
             WriteThrows \<Rightarrow> (False, st)
           | WriteOk new_id \<Rightarrow>
               (True, st\<lparr>projectsCollection :=
                  Some (updateOne_upsert coll packageName (set_fields packageName data) new_id)\<rparr>)))"

text \<open>
  \<open>saveProject\<close> of src/routes/root.ts, lines 489-507: the \<open>try\<close> block throws when there
  is no collection, and the \<open>catch\<close> clause returns \<open>false\<close>.
\<close>

definition saveProject_strict_try :: "db_write \<Rightarrow> server \<Rightarrow> string \<Rightarrow> ProjectData \<Rightarrow> exn + server" where
  "saveProject_strict_try w st packageName data =
     (case projectsCollection st of
        None \<Rightarrow> Inl Error
      | Some coll \<Rightarrow>
          (case w of
             WriteThrows \<Rightarrow> Inl MongoError
           | WriteOk new_id \<Rightarrow>
               Inr (st\<lparr>projectsCollection :=
                  Some (updateOne_upsert coll packageName (set_fields packageName data) new_id)\<rparr>)))"

definition saveProject_strict :: "db_write \<Rightarrow> server \<Rightarrow> string \<Rightarrow> ProjectData \<Rightarrow> bool \<times> server" where
  "saveProject_strict w st packageName data =
     (case saveProject_strict_try w st packageName data of
        Inl e \<Rightarrow> (False, st)
      | Inr st' \<Rightarrow> (True, st'))"

text \<open>\<open>POST /p/update/:key\<close> of src/routes/root.ts, lines 285-305.\<close>

definition post_p_update :: "db_write \<Rightarrow> server \<Rightarrow> string \<Rightarrow> ProjectData \<Rightarrow> reply \<times> server" where
  "post_p_update w st key data =
     (let st1 = st\<lparr>projects := assign (projects st) key data\<rparr> in
      case saveProject w st1 key data of
        (success, st2) \<Rightarrow>
          if success then (Reply 200 (Text ''{}''), st2)
          else (Reply 200 (Text ''{}''), st2))"

text \<open>\<open>POST /p/update/:key\<close> of src/routes/root.ts, lines 621-640.\<close>

definition post_p_update_strict :: "db_write \<Rightarrow> server \<Rightarrow> string \<Rightarrow> ProjectData \<Rightarrow> reply \<times> server" where
  "post_p_update_strict w st key data =
     (let st1 = st\<lparr>projects := assign (projects st) key data\<rparr> in
      case saveProject_strict w st1 key data of
        (success, st2) \<Rightarrow>
          if success then (Reply 200 (Text ''{}''), st2)
          else (Reply 500 (Json (JObj [''error'' \<mapsto> JStr ''Failed to save project''])), st2))"

text \<open>
  The body of the start-up loop,
  \<open>const { packageName, _id, ...projectData } = doc;
    if (packageName) { projects[packageName] = projectData }\<close>.
\<close>

definition load_doc :: "document \<Rightarrow> Projects \<Rightarrow> Projects" where
  "load_doc doc projs =
     (let packageName = doc ''packageName'';
          projectData = doc |` (- {''packageName'', ''_id''})
      in case packageName of
           None \<Rightarrow> projs
         | Some p \<Rightarrow> if truthy p then assign projs (to_key p) projectData else projs)"

text \<open>
  What the database does at start-up: something throws before the collection handle is set
  (no connection string, no connection), or after it (the ping, the query), or the query
  returns the documents of the collection.
\<close>

datatype db_init = ConnectThrows | QueryThrows "document list" | Found "document list"

text \<open>\<open>initMongoDB\<close> of src/routes/root.ts, lines 93-148.\<close>

definition initMongoDB :: "db_init \<Rightarrow> server \<Rightarrow> bool \<times> server" where
  "initMongoDB db st =
     (case db of
        ConnectThrows \<Rightarrow> (False, st)
      | QueryThrows coll \<Rightarrow> (False, st\<lparr>projectsCollection := Some coll\<rparr>)
      | Found documents \<Rightarrow>
          (True, st\<lparr>projectsCollection := Some documents,
                    projects := fold load_doc documents empty_projects\<rparr>))"

text \<open>\<open>connectToMongoDB\<close> of src/unnamed/part_001, lines 44-85.\<close>

definition connectToMongoDB :: "db_init \<Rightarrow> server \<Rightarrow> bool \<times> server" where
  "connectToMongoDB db st =
     (case db of
        ConnectThrows \<Rightarrow> (False, st)
      | QueryThrows coll \<Rightarrow> (False, st\<lparr>projectsCollection := Some coll\<rparr>)
      | Found documents \<Rightarrow>
          (True, st\<lparr>projectsCollection := Some documents,
                    projects := fold load_doc documents empty_projects\<rparr>))"

section \<open>The vocabulary of the specification\<close>

text \<open>
  The specification speaks of the country a client address resolves to: a country code, or
  unknown when there is no address, the lookup fails or gets no answer, or the response has
  no usable \<open>countryCode\<close>. The source never computes it as such; it only compares. This is
  the specification's notion, to state the decision table with.
\<close>

definition spec_resolvedCountry :: "geo \<Rightarrow> string option \<Rightarrow> string option" where
  "spec_resolvedCountry g ip =
     (case ip of
        None \<Rightarrow> None
      | Some a \<Rightarrow>
          if a = [] then None
          else (case g a of
                  Some (Inr (JObj m)) \<Rightarrow>
                    (case m ''countryCode'' of
                       Some (JStr c) \<Rightarrow> if c = [] then None else Some c
                     | _ \<Rightarrow> None)
                | _ \<Rightarrow> None))"

text \<open>
  A geolocation failure: no client address, a lookup that throws (network error) or gets no
  answer (timeout), or a response without a \<open>countryCode\<close>.
\<close>

definition lacks_countryCode :: "json \<Rightarrow> bool" where
  "lacks_countryCode data = (case data of JObj m \<Rightarrow> m ''countryCode'' = None | _ \<Rightarrow> True)"

definition spec_geo_failure :: "geo \<Rightarrow> string option \<Rightarrow> bool" where
  "spec_geo_failure g ip =
     (case ip of
        None \<Rightarrow> True
      | Some a \<Rightarrow>
          a = [] \<or> (case g a of
                      None \<Rightarrow> True
                    | Some (Inl e) \<Rightarrow> True
                    | Some (Inr data) \<Rightarrow> lacks_countryCode data))"

section \<open>Reading and writing the cache\<close>

lemma is_string_iff: "is_string x s = (x = Some (JStr s))"
  unfolding is_string_def
  by (cases x; cases "the x") auto

lemma lookup_own: "own projs key = Some r \<Longrightarrow> lookup projs key = Val (JObj r)"
  by (simp add: lookup_def)

lemma lookup_assign: "lookup (assign projs key data) key = Val (JObj data)"
  by (simp add: lookup_def assign_def)

lemma own_assign:
  "key \<noteq> ''__proto__'' \<Longrightarrow> own (assign projs key data) = (own projs)(key \<mapsto> data)"
  by (simp add: assign_def)

section \<open>The two checks against the resolved country\<close>

lemma isIPFromBrazil_app_resolved:
  "fst (isIPFromBrazil_app (settled f) ip) =
     Some (spec_resolvedCountry (settled f) ip = Some ''BR'')"
  by (auto simp: isIPFromBrazil_app_def isIPFromBrazil_app_try_def axios_get_def settled_def
      spec_resolvedCountry_def is_string_iff split: option.splits sum.splits json.splits)

lemma isIPFromBrazil_resolved:
  "fst (isIPFromBrazil g ip) = (spec_resolvedCountry g ip = Some ''BR'')"
  by (auto simp: isIPFromBrazil_def isIPFromBrazil_try_def axios_get_timeout_def
      spec_resolvedCountry_def is_string_iff split: option.splits sum.splits json.splits)

lemma isAccessibleRegion_app_resolved:
  "fst (isAccessibleRegion_app (settled f) ip (Some (JStr c))) =
     Some (c \<noteq> [] \<and> spec_resolvedCountry (settled f) ip = Some c)"
  by (auto simp: isAccessibleRegion_app_def isAccessibleRegion_app_try_def axios_get_def
      settled_def spec_resolvedCountry_def split: option.splits sum.splits json.splits)

lemma isAccessibleRegion_resolved:
  "fst (isAccessibleRegion g ip (Some (JStr c))) =
     (c \<noteq> [] \<and> spec_resolvedCountry g ip = Some c)"
  by (auto simp: isAccessibleRegion_def isAccessibleRegion_try_def axios_get_timeout_def
      spec_resolvedCountry_def split: option.splits sum.splits json.splits)

lemma isIPFromBrazil_app_settles:
  "\<exists>b. fst (isIPFromBrazil_app (settled f) ip) = Some b"
  by (simp add: isIPFromBrazil_app_resolved)

lemma isAccessibleRegion_app_settles:
  "\<exists>b. fst (isAccessibleRegion_app (settled f) ip cc) = Some b"
  by (auto simp: isAccessibleRegion_app_def isAccessibleRegion_app_try_def axios_get_def
      settled_def split: option.splits sum.splits)

section \<open>The region-gated endpoint\<close>

text \<open>
  C1. A record stored under the key without an \<open>ip\<close> field: \<open>GET /br/:key\<close> answers 200
  with the record when the client's address resolves to \<open>BR\<close> and the record's \<open>code\<close> is
  the string \<open>"2"\<close>, and with \<open>{}\<close> in every other case; in particular it answers \<open>{}\<close>
  whenever the country is not \<open>BR\<close>, whatever \<open>code\<close> is. The handler of src/app.ts for
  every provider that fails or answers, the one of the later variants for every provider.
\<close>

theorem br_no_ip_field:
  assumes "own projs key = Some r" and "r ''ip'' = None"
  shows "fst (get_br_app (settled f) projs xff key) =
           Reply 200 (Json (if spec_resolvedCountry (settled f) (requestIp xff) = Some ''BR''
                               \<and> r ''code'' = Some (JStr ''2'')
                            then JObj r else empty_object))
       \<and> fst (get_br g projs xff key) =
           Reply 200 (Json (if spec_resolvedCountry g (requestIp xff) = Some ''BR''
                               \<and> r ''code'' = Some (JStr ''2'')
                            then JObj r else empty_object))"
proof -
  have a: "fst (isIPFromBrazil_app (settled f) (requestIp xff)) =
             Some (spec_resolvedCountry (settled f) (requestIp xff) = Some ''BR'')"
    by (rule isIPFromBrazil_app_resolved)
  have b: "fst (isIPFromBrazil g (requestIp xff)) =
             (spec_resolvedCountry g (requestIp xff) = Some ''BR'')"
    by (rule isIPFromBrazil_resolved)
  show ?thesis
    using assms a b
    by (auto simp: get_br_app_def get_br_def lookup_own is_string_iff Let_def split: prod.splits)
qed

theorem br_no_ip_field_witness:
  "own \<lparr>own = [''y'' \<mapsto> [''code'' \<mapsto> JStr ''2'']], proto = None\<rparr> ''y''
     = Some [''code'' \<mapsto> JStr ''2'']
   \<and> [''code'' \<mapsto> JStr ''2''] ''ip'' = None
   \<and> fst (get_br_app (settled (\<lambda>a. Inr (JObj [''countryCode'' \<mapsto> JStr ''BR''])))
        \<lparr>own = [''y'' \<mapsto> [''code'' \<mapsto> JStr ''2'']], proto = None\<rparr>
        (Some ''200.1.2.3, 10.0.0.1'') ''y'')
       = Reply 200 (Json (JObj [''code'' \<mapsto> JStr ''2'']))
   \<and> fst (get_br (\<lambda>a. Some (Inr (JObj [''countryCode'' \<mapsto> JStr ''DE''])))
        \<lparr>own = [''y'' \<mapsto> [''code'' \<mapsto> JStr ''2'']], proto = None\<rparr>
        (Some ''200.1.2.3, 10.0.0.1'') ''y'')
       = Reply 200 (Json empty_object)"
  using br_no_ip_field [of "\<lparr>own = [''y'' \<mapsto> [''code'' \<mapsto> JStr ''2'']], proto = None\<rparr>"
      "''y''" "[''code'' \<mapsto> JStr ''2'']"
      "\<lambda>a. Inr (JObj [''countryCode'' \<mapsto> JStr ''BR''])" "Some ''200.1.2.3, 10.0.0.1''"
      "\<lambda>a. Some (Inr (JObj [''countryCode'' \<mapsto> JStr ''DE'']))"]
  by (simp add: spec_resolvedCountry_def settled_def requestIp_def trim_def is_space_def)

text \<open>
  C2. A record whose \<open>ip\<close> field is the empty string: \<open>GET /br/:key\<close> answers 200 with the
  record exactly when its \<open>code\<close> is \<open>"2"\<close> and with \<open>{}\<close> otherwise, for every provider
  and every request header, and without looking any address up.
\<close>

theorem br_empty_ip:
  assumes "own projs key = Some r" and "r ''ip'' = Some (JStr [])"
  shows "get_br_app g projs xff key =
           (Reply 200 (Json (if r ''code'' = Some (JStr ''2'') then JObj r else empty_object)), [])
       \<and> get_br g projs xff key =
           (Reply 200 (Json (if r ''code'' = Some (JStr ''2'') then JObj r else empty_object)), [])
       \<and> (fst (get_br_app g projs xff key) = Reply 200 (Json (JObj r)))
           = (r ''code'' = Some (JStr ''2''))
       \<and> (fst (get_br g projs xff key) = Reply 200 (Json (JObj r)))
           = (r ''code'' = Some (JStr ''2''))"
proof -
  have "r \<noteq> Map.empty" using assms(2) by auto
  then show ?thesis
    using assms
    by (auto simp: get_br_app_def get_br_def lookup_own is_string_iff Let_def empty_object_def)
qed

theorem br_empty_ip_witness:
  "own \<lparr>own = [''x'' \<mapsto> [''packageName'' \<mapsto> JStr ''x'', ''code'' \<mapsto> JStr ''2'', ''ip'' \<mapsto> JStr []]],
        proto = None\<rparr> ''x''
     = Some [''packageName'' \<mapsto> JStr ''x'', ''code'' \<mapsto> JStr ''2'', ''ip'' \<mapsto> JStr []]
   \<and> [''packageName'' \<mapsto> JStr ''x'', ''code'' \<mapsto> JStr ''2'', ''ip'' \<mapsto> JStr []] ''ip''
     = Some (JStr [])
   \<and> get_br_app (\<lambda>a. None)
        \<lparr>own = [''x'' \<mapsto> [''packageName'' \<mapsto> JStr ''x'', ''code'' \<mapsto> JStr ''2'', ''ip'' \<mapsto> JStr []]],
         proto = None\<rparr>
        (Some ''8.8.8.8'') ''x''
     = (Reply 200 (Json (JObj
          [''packageName'' \<mapsto> JStr ''x'', ''code'' \<mapsto> JStr ''2'', ''ip'' \<mapsto> JStr []])), [])"
  using br_empty_ip [of
      "\<lparr>own = [''x'' \<mapsto> [''packageName'' \<mapsto> JStr ''x'', ''code'' \<mapsto> JStr ''2'', ''ip'' \<mapsto> JStr []]],
        proto = None\<rparr>"
      "''x''" "[''packageName'' \<mapsto> JStr ''x'', ''code'' \<mapsto> JStr ''2'', ''ip'' \<mapsto> JStr []]"
      "\<lambda>a. None" "Some ''8.8.8.8''"]
  by simp

text \<open>
  C3. A record whose \<open>ip\<close> field is a non-empty country code \<open>c\<close>: \<open>GET /br/:key\<close> answers
  200 with the record exactly when the client's address resolves to \<open>c\<close> and the record's
  \<open>code\<close> is \<open>"2"\<close>; when the country differs or is unknown, or \<open>code\<close> is anything else,
  the body is \<open>{}\<close>. The handler of src/app.ts for every provider that fails or answers,
  the one of the later variants for every provider.
\<close>

theorem br_country_ip:
  assumes "own projs key = Some r" and "r ''ip'' = Some (JStr c)" and "c \<noteq> []"
  shows "fst (get_br_app (settled f) projs xff key) =
           Reply 200 (Json (if spec_resolvedCountry (settled f) (requestIp xff) = Some c
                               \<and> r ''code'' = Some (JStr ''2'')
                            then JObj r else empty_object))
       \<and> fst (get_br g projs xff key) =
           Reply 200 (Json (if spec_resolvedCountry g (requestIp xff) = Some c
                               \<and> r ''code'' = Some (JStr ''2'')
                            then JObj r else empty_object))
       \<and> (fst (get_br_app (settled f) projs xff key) = Reply 200 (Json (JObj r)))
           = (spec_resolvedCountry (settled f) (requestIp xff) = Some c
              \<and> r ''code'' = Some (JStr ''2''))
       \<and> (fst (get_br g projs xff key) = Reply 200 (Json (JObj r)))
           = (spec_resolvedCountry g (requestIp xff) = Some c \<and> r ''code'' = Some (JStr ''2''))"
proof -
  have ne: "r \<noteq> Map.empty" using assms(2) by auto
  have a: "fst (isAccessibleRegion_app (settled f) (requestIp xff) (Some (JStr c))) =
             Some (spec_resolvedCountry (settled f) (requestIp xff) = Some c)"
    using assms(3) by (simp add: isAccessibleRegion_app_resolved)
  have b: "fst (isAccessibleRegion g (requestIp xff) (Some (JStr c))) =
             (spec_resolvedCountry g (requestIp xff) = Some c)"
    using assms(3) by (simp add: isAccessibleRegion_resolved)
  show ?thesis
    using assms ne a b
    by (auto simp: get_br_app_def get_br_def lookup_own is_string_iff Let_def empty_object_def
        split: prod.splits)
qed

theorem br_country_ip_witness:
  "own \<lparr>own = [''z'' \<mapsto> [''code'' \<mapsto> JStr ''2'', ''ip'' \<mapsto> JStr ''FR'']], proto = None\<rparr> ''z''
     = Some [''code'' \<mapsto> JStr ''2'', ''ip'' \<mapsto> JStr ''FR'']
   \<and> [''code'' \<mapsto> JStr ''2'', ''ip'' \<mapsto> JStr ''FR''] ''ip'' = Some (JStr ''FR'')
   \<and> ''FR'' \<noteq> []
   \<and> fst (get_br_app (settled (\<lambda>a. Inr (JObj [''countryCode'' \<mapsto> JStr ''DE''])))
        \<lparr>own = [''z'' \<mapsto> [''code'' \<mapsto> JStr ''2'', ''ip'' \<mapsto> JStr ''FR'']], proto = None\<rparr>
        (Some ''5.6.7.8'') ''z'')
     = Reply 200 (Json empty_object)
   \<and> fst (get_br (\<lambda>a. Some (Inr (JObj [''countryCode'' \<mapsto> JStr ''FR''])))
        \<lparr>own = [''z'' \<mapsto> [''code'' \<mapsto> JStr ''2'', ''ip'' \<mapsto> JStr ''FR'']], proto = None\<rparr>
        (Some ''5.6.7.8'') ''z'')
     = Reply 200 (Json (JObj [''code'' \<mapsto> JStr ''2'', ''ip'' \<mapsto> JStr ''FR'']))"
  using br_country_ip [of
      "\<lparr>own = [''z'' \<mapsto> [''code'' \<mapsto> JStr ''2'', ''ip'' \<mapsto> JStr ''FR'']], proto = None\<rparr>" "''z''"
      "[''code'' \<mapsto> JStr ''2'', ''ip'' \<mapsto> JStr ''FR'']" "''FR''"
      "\<lambda>a. Inr (JObj [''countryCode'' \<mapsto> JStr ''DE''])" "Some ''5.6.7.8''"
      "\<lambda>a. Some (Inr (JObj [''countryCode'' \<mapsto> JStr ''FR'']))"]
  by (simp add: spec_resolvedCountry_def settled_def requestIp_def trim_def is_space_def)

text \<open>
  C4. A record whose \<open>code\<close> is not the string \<open>"2"\<close> (absent included): \<open>GET /br/:key\<close>
  answers 200 with \<open>{}\<close>, whatever the record's \<open>ip\<close> field is, whatever the provider
  answers and whatever address the request carries. The handler of src/app.ts for every
  provider that fails or answers, the one of the later variants for every provider.
\<close>

theorem br_hidden_code:
  assumes "own projs key = Some r" and "r ''code'' \<noteq> Some (JStr ''2'')"
  shows "fst (get_br_app (settled f) projs xff key) = Reply 200 (Json empty_object)
       \<and> fst (get_br g projs xff key) = Reply 200 (Json empty_object)"
proof -
  obtain b where b: "fst (isIPFromBrazil_app (settled f) (requestIp xff)) = Some b"
    using isIPFromBrazil_app_settles by blast
  obtain c where c: "fst (isAccessibleRegion_app (settled f) (requestIp xff) (r ''ip'')) = Some c"
    using isAccessibleRegion_app_settles by blast
  show ?thesis
    using assms b c
    by (cases "isIPFromBrazil_app (settled f) (requestIp xff)";
        cases "isAccessibleRegion_app (settled f) (requestIp xff) (r ''ip'')")
       (auto simp: get_br_app_def get_br_def lookup_own is_string_iff Let_def
        split: prod.splits)
qed

theorem br_hidden_code_witness:
  "own \<lparr>own = [''y'' \<mapsto> [''packageName'' \<mapsto> JStr ''y'', ''code'' \<mapsto> JStr ''1'']], proto = None\<rparr>
       ''y''
     = Some [''packageName'' \<mapsto> JStr ''y'', ''code'' \<mapsto> JStr ''1'']
   \<and> [''packageName'' \<mapsto> JStr ''y'', ''code'' \<mapsto> JStr ''1''] ''code'' \<noteq> Some (JStr ''2'')
   \<and> fst (get_br_app (settled (\<lambda>a. Inr (JObj [''countryCode'' \<mapsto> JStr ''BR''])))
        \<lparr>own = [''y'' \<mapsto> [''packageName'' \<mapsto> JStr ''y'', ''code'' \<mapsto> JStr ''1'']], proto = None\<rparr>
        (Some ''200.1.2.3'') ''y'')
     = Reply 200 (Json empty_object)
   \<and> fst (get_br (\<lambda>a. Some (Inr (JObj [''countryCode'' \<mapsto> JStr ''BR''])))
        \<lparr>own = [''y'' \<mapsto> [''packageName'' \<mapsto> JStr ''y'', ''code'' \<mapsto> JStr ''1'']], proto = None\<rparr>
        (Some ''200.1.2.3'') ''y'')
     = Reply 200 (Json empty_object)"
  using br_hidden_code [of
      "\<lparr>own = [''y'' \<mapsto> [''packageName'' \<mapsto> JStr ''y'', ''code'' \<mapsto> JStr ''1'']], proto = None\<rparr>"
      "''y''" "[''packageName'' \<mapsto> JStr ''y'', ''code'' \<mapsto> JStr ''1'']"
      "\<lambda>a. Inr (JObj [''countryCode'' \<mapsto> JStr ''BR''])" "Some ''200.1.2.3''"
      "\<lambda>a. Some (Inr (JObj [''countryCode'' \<mapsto> JStr ''BR'']))"]
  by simp

lemma br_undefined_key:
  assumes "lookup projs key = Undefined"
  shows "get_br_app g projs xff key = (Reply 200 (Json empty_object), [])"
    and "get_br g projs xff key = (Reply 200 (Json empty_object), [])"
  using assms by (simp_all add: get_br_app_def get_br_def)

text \<open>
  C6, at a failing input. The cache starts empty; \<open>POST /p/update/__proto__\<close> with the body
  \<open>{"code": "2", "ip": ""}\<close> stores nothing under any key (\<open>GET /p/all\<close> still answers
  \<open>{}\<close>), yet \<open>projects["code"]\<close> is now the inherited string \<open>"2"\<close>: the early return for
  a missing record is not taken, \<open>"ip" in "2"\<close> throws, and \<open>GET /br/code\<close> is answered
  with 500 instead of 200 and \<open>{}\<close>. Both handlers.
\<close>

theorem br_inherited_key_throws:
  "own (snd (post_p_update_app True empty_projects ''__proto__''
          [''code'' \<mapsto> JStr ''2'', ''ip'' \<mapsto> JStr []])) ''code'' = None
   \<and> get_p_all (snd (post_p_update_app True empty_projects ''__proto__''
          [''code'' \<mapsto> JStr ''2'', ''ip'' \<mapsto> JStr []]))
       = Reply 200 (Json (JObj Map.empty))
   \<and> fst (get_br_app (settled (\<lambda>a. Inl AxiosError))
          (snd (post_p_update_app True empty_projects ''__proto__''
             [''code'' \<mapsto> JStr ''2'', ''ip'' \<mapsto> JStr []]))
          None ''code'') = Throws TypeError
   \<and> own (projects (snd (post_p_update WriteThrows
          \<lparr>projects = empty_projects, projectsCollection = None\<rparr> ''__proto__''
          [''code'' \<mapsto> JStr ''2'', ''ip'' \<mapsto> JStr []]))) ''code'' = None
   \<and> fst (get_br (settled (\<lambda>a. Inl AxiosError))
          (projects (snd (post_p_update WriteThrows
             \<lparr>projects = empty_projects, projectsCollection = None\<rparr> ''__proto__''
             [''code'' \<mapsto> JStr ''2'', ''ip'' \<mapsto> JStr []])))
          None ''code'') = Throws TypeError"
  by (simp add: post_p_update_app_def post_p_update_def saveProject_def assign_def
      empty_projects_def get_p_all_def get_br_app_def get_br_def lookup_def Let_def)

section \<open>Geolocation failures\<close>

lemma geo_failure_unknown: "spec_geo_failure g ip \<Longrightarrow> spec_resolvedCountry g ip = None"
  by (auto simp: spec_geo_failure_def spec_resolvedCountry_def lacks_countryCode_def
      split: option.splits sum.splits json.splits)

lemma geo_failure_checks:
  assumes "spec_geo_failure g ip"
  shows "fst (isIPFromBrazil g ip) = False"
    and "fst (isAccessibleRegion g ip cc) = False"
  using assms
  by (cases cc; auto simp: spec_geo_failure_def lacks_countryCode_def is_string_iff
      isIPFromBrazil_def isIPFromBrazil_try_def axios_get_timeout_def
      isAccessibleRegion_def isAccessibleRegion_try_def
      split: option.splits sum.splits json.splits)+

lemma geo_failure_checks_app:
  assumes "spec_geo_failure (settled f) ip"
  shows "fst (isIPFromBrazil_app (settled f) ip) = Some False"
    and "fst (isAccessibleRegion_app (settled f) ip cc) = Some False"
  using assms
  by (cases cc; auto simp: spec_geo_failure_def lacks_countryCode_def is_string_iff settled_def
      isIPFromBrazil_app_def isIPFromBrazil_app_try_def axios_get_def
      isAccessibleRegion_app_def isAccessibleRegion_app_try_def
      split: option.splits sum.splits json.splits)+

lemma br_geo_failure_stored:
  assumes "spec_geo_failure g (requestIp xff)" and "own projs key = Some r"
  shows "fst (get_br g projs xff key) =
           Reply 200 (Json (if r ''ip'' = Some (JStr []) \<and> r ''code'' = Some (JStr ''2'')
                            then JObj r else empty_object))"
  using assms(2)
  by (auto simp: get_br_def lookup_own is_string_iff Let_def case_prod_beta
      geo_failure_checks [OF assms(1)])

text \<open>
  C7, at a failing input. A record without an \<open>ip\<close> field is stored under \<open>y\<close>, the request
  carries a client address, and the provider never answers. In src/app.ts \<open>axios.get\<close> is
  called with no timeout (the comment above it says ten seconds), so neither check returns
  and \<open>GET /br/y\<close> gets no reply. The later variants pass \<open>timeout: 5000\<close>: there the check
  returns \<open>false\<close> and the request is answered with 200 and \<open>{}\<close>.
\<close>

theorem br_app_silent_provider_no_reply:
  "spec_geo_failure (\<lambda>a. None) (requestIp (Some ''1.2.3.4''))
   \<and> fst (isIPFromBrazil_app (\<lambda>a. None) (requestIp (Some ''1.2.3.4''))) = None
   \<and> fst (isAccessibleRegion_app (\<lambda>a. None) (requestIp (Some ''1.2.3.4'')) (Some (JStr ''FR'')))
       = None
   \<and> fst (get_br_app (\<lambda>a. None) \<lparr>own = [''y'' \<mapsto> [''code'' \<mapsto> JStr ''2'']], proto = None\<rparr>
          (Some ''1.2.3.4'') ''y'') = NoReply
   \<and> fst (isIPFromBrazil (\<lambda>a. None) (requestIp (Some ''1.2.3.4''))) = False
   \<and> fst (get_br (\<lambda>a. None) \<lparr>own = [''y'' \<mapsto> [''code'' \<mapsto> JStr ''2'']], proto = None\<rparr>
          (Some ''1.2.3.4'') ''y'') = Reply 200 (Json empty_object)"
  by (simp add: spec_geo_failure_def requestIp_def trim_def is_space_def
      isIPFromBrazil_app_def isIPFromBrazil_app_try_def axios_get_def
      isAccessibleRegion_app_def isAccessibleRegion_app_try_def
      isIPFromBrazil_def isIPFromBrazil_try_def axios_get_timeout_def
      get_br_app_def get_br_def lookup_def is_string_iff Let_def)

section \<open>Writes and the cache\<close>

lemma saveProject_projects: "projects (snd (saveProject w st k d)) = projects st"
  by (simp add: saveProject_def split: option.splits db_write.splits)

lemma saveProject_strict_projects: "projects (snd (saveProject_strict w st k d)) = projects st"
  by (simp add: saveProject_strict_def saveProject_strict_try_def
      split: option.splits db_write.splits)

lemma post_p_update_cache:
  "projects (snd (post_p_update w st key data)) = assign (projects st) key data"
  by (simp add: post_p_update_def Let_def case_prod_beta saveProject_projects)

lemma post_p_update_strict_cache:
  "projects (snd (post_p_update_strict w st key data)) = assign (projects st) key data"
  by (simp add: post_p_update_strict_def Let_def case_prod_beta saveProject_strict_projects)

text \<open>
  C5, as stated: \<open>POST /p/update/:key\<close> answers 200 with \<open>"{}"\<close> even when the durable
  write fails, and never with a 5xx status. The handler of src/routes/root.ts, lines
  621-640, does not: with a collection at hand and a write that throws it answers 500.
\<close>

theorem update_strict_write_failure_counterexample:
  "fst (post_p_update_strict WriteThrows
          \<lparr>projects = empty_projects, projectsCollection = Some []\<rparr>
          ''x'' [''code'' \<mapsto> JStr ''2''])
     = Reply 500 (Json (JObj [''error'' \<mapsto> JStr ''Failed to save project'']))"
  by (simp add: post_p_update_strict_def saveProject_strict_def saveProject_strict_try_def)

text \<open>
  C5, amended: the handler of src/routes/root.ts, lines 285-305, answers 200 with \<open>"{}"\<close>
  for every key and body, whether or not there is a collection and whether or not the
  write throws. The handler of lines 621-640 answers 200 with \<open>"{}"\<close> when the write went
  through, and 500 with \<open>{"error": "Failed to save project"}\<close> when there is no collection
  or the write throws.
\<close>

theorem update_replies:
  "fst (post_p_update w st key data) = Reply 200 (Text ''{}'')
   \<and> fst (post_p_update_strict w st key data) =
       (case w of
          WriteThrows \<Rightarrow> Reply 500 (Json (JObj [''error'' \<mapsto> JStr ''Failed to save project'']))
        | WriteOk new_id \<Rightarrow>
            (case projectsCollection st of
               None \<Rightarrow> Reply 500 (Json (JObj [''error'' \<mapsto> JStr ''Failed to save project'']))
             | Some coll \<Rightarrow> Reply 200 (Text ''{}'')))"
  by (cases w) (auto simp: post_p_update_def post_p_update_strict_def saveProject_def
      saveProject_strict_def saveProject_strict_try_def Let_def
      split: option.splits db_write.splits)

theorem update_replies_witness:
  "fst (post_p_update WriteThrows \<lparr>projects = empty_projects, projectsCollection = None\<rparr> ''x''
          [''code'' \<mapsto> JStr ''2'']) = Reply 200 (Text ''{}'')
   \<and> fst (post_p_update_strict (WriteOk (JOid ''65a1''))
          \<lparr>projects = empty_projects, projectsCollection = Some []\<rparr> ''x''
          [''code'' \<mapsto> JStr ''2'']) = Reply 200 (Text ''{}'')"
  using update_replies [of WriteThrows "\<lparr>projects = empty_projects, projectsCollection = None\<rparr>"
          "''x''" "[''code'' \<mapsto> JStr ''2'']"]
    update_replies [of "WriteOk (JOid ''65a1'')"
          "\<lparr>projects = empty_projects, projectsCollection = Some []\<rparr>" "''x''"
          "[''code'' \<mapsto> JStr ''2'']"]
  by simp

text \<open>
  C8. \<open>POST /p/update/:key\<close> with a body, then \<open>GET /pp/:key\<close>: the answer is 200 with
  exactly the body, whatever the database did with the write, because the handler assigns
  the body to the cache before it saves and \<open>GET /pp/:key\<close> reads the cache. Both update
  handlers of src/routes/root.ts, every key (\<open>__proto__\<close> included) and every state of the
  cache.
\<close>

theorem update_then_get:
  "get_pp (projects (snd (post_p_update w st key data))) key = Reply 200 (Json (JObj data))
   \<and> get_pp (projects (snd (post_p_update_strict w st key data))) key
       = Reply 200 (Json (JObj data))"
  by (simp add: post_p_update_cache post_p_update_strict_cache get_pp_def lookup_assign)

theorem update_then_get_witness:
  "get_pp (projects (snd (post_p_update WriteThrows
       \<lparr>projects = empty_projects, projectsCollection = None\<rparr> ''x''
       [''code'' \<mapsto> JStr ''1'', ''note'' \<mapsto> JArr [JNum ''1'', JNull]]))) ''x''
     = Reply 200 (Json (JObj [''code'' \<mapsto> JStr ''1'', ''note'' \<mapsto> JArr [JNum ''1'', JNull]]))"
  using update_then_get [of WriteThrows "\<lparr>projects = empty_projects, projectsCollection = None\<rparr>"
       "''x''" "[''code'' \<mapsto> JStr ''1'', ''note'' \<mapsto> JArr [JNum ''1'', JNull]]"]
  by simp

section \<open>The start-up load\<close>

lemma own_load_doc:
  "own (load_doc d projs) key = Some r \<Longrightarrow>
   own projs key = Some r \<or>
   (\<exists>p. d ''packageName'' = Some p \<and> truthy p \<and> to_key p = key
       \<and> r = d |` (- {''packageName'', ''_id''}))"
  by (auto simp: load_doc_def assign_def Let_def split: option.splits if_splits)

lemma fold_load_origin:
  "own (fold load_doc docs projs) key = Some r \<Longrightarrow>
   own projs key = Some r \<or>
   (\<exists>d\<in>set docs. \<exists>p. d ''packageName'' = Some p \<and> truthy p \<and> to_key p = key
       \<and> r = d |` (- {''packageName'', ''_id''}))"
proof (induction docs arbitrary: projs)
  case Nil
  then show ?case by simp
next
  case (Cons x xs)
  from Cons.prems have "own (fold load_doc xs (load_doc x projs)) key = Some r" by simp
  then have "own (load_doc x projs) key = Some r \<or>
   (\<exists>d\<in>set xs. \<exists>p. d ''packageName'' = Some p \<and> truthy p \<and> to_key p = key
       \<and> r = d |` (- {''packageName'', ''_id''}))"
    by (rule Cons.IH [of "load_doc x projs"])
  then show ?case
  proof
    assume "own (load_doc x projs) key = Some r"
    then show ?thesis using own_load_doc [of x projs key r] by auto
  next
    assume "\<exists>d\<in>set xs. \<exists>p. d ''packageName'' = Some p \<and> truthy p \<and> to_key p = key
       \<and> r = d |` (- {''packageName'', ''_id''})"
    then show ?thesis by auto
  qed
qed

lemma loaded_entry_stripped:
  assumes "own (fold load_doc docs empty_projects) key = Some r"
  shows "r ''packageName'' = None" and "r ''_id'' = None"
    and "\<exists>d\<in>set docs. \<exists>p. d ''packageName'' = Some p \<and> truthy p \<and> to_key p = key
       \<and> r = d |` (- {''packageName'', ''_id''})"
  using fold_load_origin [OF assms] by (auto simp: empty_projects_def)

lemma last_document_cached:
  assumes "d ''packageName'' = Some p" and "truthy p" and "to_key p \<noteq> ''__proto__''"
  shows "own (fold load_doc (docs @ [d]) projs) (to_key p)
           = Some (d |` (- {''packageName'', ''_id''}))"
  using assms by (simp add: load_doc_def assign_def)

lemma init_projects:
  "projects (snd (initMongoDB (Found docs) st)) = fold load_doc docs empty_projects"
  "projects (snd (connectToMongoDB (Found docs) st)) = fold load_doc docs empty_projects"
  by (simp_all add: initMongoDB_def connectToMongoDB_def)

text \<open>
  C9, at a failing input. The start-up query returns one document, whose \<open>packageName\<close> is
  \<open>__proto__\<close> (the service writes such a document on \<open>POST /p/update/__proto__\<close>). The
  loop's \<open>projects[packageName] = projectData\<close> then makes the stripped document the
  prototype of the cache and adds no entry: the cache has no member of that name and
  \<open>GET /p/all\<close> answers \<open>{}\<close>, so the loaded record is not served there. \<open>initMongoDB\<close> of
  src/routes/root.ts and \<open>connectToMongoDB\<close> of src/unnamed/part_001 alike.
\<close>

theorem startup_load_proto_document:
  "own (projects (snd (initMongoDB
          (Found [[''_id'' \<mapsto> JOid ''65a1'', ''packageName'' \<mapsto> JStr ''__proto__'',
                   ''code'' \<mapsto> JStr ''2'', ''ip'' \<mapsto> JStr []]])
          \<lparr>projects = empty_projects, projectsCollection = None\<rparr>))) ''__proto__'' = None
   \<and> get_p_all (projects (snd (initMongoDB
          (Found [[''_id'' \<mapsto> JOid ''65a1'', ''packageName'' \<mapsto> JStr ''__proto__'',
                   ''code'' \<mapsto> JStr ''2'', ''ip'' \<mapsto> JStr []]])
          \<lparr>projects = empty_projects, projectsCollection = None\<rparr>)))
       = Reply 200 (Json (JObj Map.empty))
   \<and> get_p_all (projects (snd (connectToMongoDB
          (Found [[''_id'' \<mapsto> JOid ''65a1'', ''packageName'' \<mapsto> JStr ''__proto__'',
                   ''code'' \<mapsto> JStr ''2'', ''ip'' \<mapsto> JStr []]])
          \<lparr>projects = empty_projects, projectsCollection = None\<rparr>)))
       = Reply 200 (Json (JObj Map.empty))"
  by (simp add: initMongoDB_def connectToMongoDB_def load_doc_def assign_def
      empty_projects_def get_p_all_def Let_def)

section \<open>The document a write stores\<close>

lemma set_first_written:
  "set_first k upd coll = Some coll' \<Longrightarrow> \<exists>d\<in>set coll'. \<exists>b. d = b ++ upd"
  by (induction coll arbitrary: coll') (auto split: if_splits)

lemma updateOne_upsert_written:
  "\<exists>d\<in>set (updateOne_upsert coll k upd new_id). \<exists>b. d = b ++ upd"
  by (auto simp: updateOne_upsert_def dest: set_first_written split: option.splits)

text \<open>
  C10. \<open>saveProject\<close> builds the document as \<open>{ packageName, ...data }\<close>, the body last.
  When the body has a \<open>packageName\<close> of its own that is not the key, and the write goes
  through, the document passed under \<open>$set\<close> carries the body's \<open>packageName\<close>, the
  collection holds a document with that \<open>packageName\<close> (not the key) and the body's
  fields, and the cache holds the body under the key (\<open>projects[key]\<close> is the body).
\<close>

theorem update_body_packageName_wins:
  assumes "data ''packageName'' = Some v" and "v \<noteq> JStr key"
    and "projectsCollection st = Some coll"
  shows "set_fields key data ''packageName'' = Some v
       \<and> fst (post_p_update (WriteOk new_id) st key data) = Reply 200 (Text ''{}'')
       \<and> projects (snd (post_p_update (WriteOk new_id) st key data))
           = assign (projects st) key data
       \<and> lookup (projects (snd (post_p_update (WriteOk new_id) st key data))) key
           = Val (JObj data)
       \<and> projectsCollection (snd (post_p_update (WriteOk new_id) st key data))
           = Some (updateOne_upsert coll key (set_fields key data) new_id)
       \<and> (\<exists>d\<in>set (updateOne_upsert coll key (set_fields key data) new_id).
             d ''packageName'' = Some v \<and> d ''packageName'' \<noteq> Some (JStr key)
             \<and> (\<forall>f y. data f = Some y \<longrightarrow> d f = Some y))"
proof -
  have sf: "set_fields key data ''packageName'' = Some v"
    using assms(1) by (simp add: set_fields_def map_add_def)
  have agree: "(b ++ set_fields key data) f = Some y" if "data f = Some y" for b f y
    using that by (simp add: set_fields_def map_add_def)
  obtain d b where d: "d \<in> set (updateOne_upsert coll key (set_fields key data) new_id)"
      and b: "d = b ++ set_fields key data"
    using updateOne_upsert_written by blast
  have "d ''packageName'' = Some v" using assms(1) b agree by simp
  moreover have "\<forall>f y. data f = Some y \<longrightarrow> d f = Some y" using b agree by simp
  ultimately have ex: "\<exists>d\<in>set (updateOne_upsert coll key (set_fields key data) new_id).
             d ''packageName'' = Some v \<and> d ''packageName'' \<noteq> Some (JStr key)
             \<and> (\<forall>f y. data f = Some y \<longrightarrow> d f = Some y)"
    using d assms(2) by auto
  have rep: "fst (post_p_update (WriteOk new_id) st key data) = Reply 200 (Text ''{}'')"
    by (simp add: post_p_update_def Let_def case_prod_beta)
  have coll': "projectsCollection (snd (post_p_update (WriteOk new_id) st key data))
           = Some (updateOne_upsert coll key (set_fields key data) new_id)"
    using assms(3) by (simp add: post_p_update_def Let_def saveProject_def)
  show ?thesis using sf rep coll' ex by (simp add: post_p_update_cache lookup_assign)
qed

theorem update_body_packageName_wins_witness:
  "[''packageName'' \<mapsto> JStr ''y'', ''code'' \<mapsto> JStr ''2''] ''packageName'' = Some (JStr ''y'')
   \<and> JStr ''y'' \<noteq> JStr ''x''
   \<and> projectsCollection \<lparr>projects = empty_projects, projectsCollection = Some []\<rparr> = Some []
   \<and> set_fields ''x'' [''packageName'' \<mapsto> JStr ''y'', ''code'' \<mapsto> JStr ''2''] ''packageName''
       = Some (JStr ''y'')
   \<and> own (projects (snd (post_p_update (WriteOk (JOid ''65a1''))
         \<lparr>projects = empty_projects, projectsCollection = Some []\<rparr> ''x''
         [''packageName'' \<mapsto> JStr ''y'', ''code'' \<mapsto> JStr ''2'']))) ''x''
       = Some [''packageName'' \<mapsto> JStr ''y'', ''code'' \<mapsto> JStr ''2'']
   \<and> map_option (map (\<lambda>d. d ''packageName''))
        (projectsCollection (snd (post_p_update (WriteOk (JOid ''65a1''))
           \<lparr>projects = empty_projects, projectsCollection = Some []\<rparr> ''x''
           [''packageName'' \<mapsto> JStr ''y'', ''code'' \<mapsto> JStr ''2''])))
       = Some [Some (JStr ''y'')]"
  using update_body_packageName_wins [of
      "[''packageName'' \<mapsto> JStr ''y'', ''code'' \<mapsto> JStr ''2'']" "JStr ''y''" "''x''"
      "\<lparr>projects = empty_projects, projectsCollection = Some []\<rparr>" "[]" "JOid ''65a1''"]
  by (simp add: updateOne_upsert_def set_fields_def post_p_update_cache assign_def)

end
